theory Spec2Isabelle
  imports Complex_Main
begin

section \<open>Numbers of the source language\<close>

text \<open>
  Every numeric field of a reading has the TypeScript type \<open>number\<close>: an IEEE double, that
  is a finite value, one of the two infinities, or NaN. The finite values are embedded in
  the reals (every finite double is a rational number, and \<open>safetyScore\<close> only compares
  its inputs with integer literals, which doubles represent exactly, so no rounding takes
  place). \<open>-0\<close> and \<open>+0\<close> compare equal and are both \<open>Fin 0\<close>.
\<close>

datatype number = NaN | NegInf | Fin real | PosInf

text \<open>
  The relational operators \<open><\<close>, \<open>>\<close>, \<open><=\<close> and \<open>>=\<close> on numbers: every comparison
  with NaN is false, also \<open><=\<close> and \<open>>=\<close>.
\<close>

fun js_lt :: "number \<Rightarrow> number \<Rightarrow> bool" where
  "js_lt NaN _ = False"
| "js_lt _ NaN = False"
| "js_lt (Fin x) (Fin y) = (x < y)"
| "js_lt NegInf NegInf = False"
| "js_lt NegInf _ = True"
| "js_lt _ NegInf = False"
| "js_lt PosInf _ = False"
| "js_lt _ PosInf = True"

definition js_gt :: "number \<Rightarrow> number \<Rightarrow> bool" where
  "js_gt a b = js_lt b a"

definition js_le :: "number \<Rightarrow> number \<Rightarrow> bool" where
  "js_le a b = (a \<noteq> NaN \<and> b \<noteq> NaN \<and> \<not> js_lt b a)"

definition js_ge :: "number \<Rightarrow> number \<Rightarrow> bool" where
  "js_ge a b = (a \<noteq> NaN \<and> b \<noteq> NaN \<and> \<not> js_lt a b)"

section \<open>Data model\<close>

text \<open>\<open>type Activity = "running" | "cycling"\<close>\<close>

datatype Activity = Running | Cycling

text \<open>
  The field \<open>aqiUS?: number | null\<close>: left out (\<open>undefined\<close>), \<open>null\<close>, or a number.
\<close>

datatype aqi = Undefined | Null | Num number

text \<open>
  The parameter object of \<open>safetyScore\<close>. \<open>weatherCode?: number\<close> is optional;
  \<open>None\<close> is the field left out.
\<close>

record reading =
  activity :: Activity
  tempC :: number
  windKmh :: number
  precipMm :: number
  precipProb :: number
  aqiUS :: aqi
  weatherCode :: "number option"

text \<open>The return type of \<open>scoreToLevel\<close>: \<open>"green" | "yellow" | "red"\<close>.\<close>

datatype Level = Green | Yellow | Red

section \<open>The safety evaluator\<close>

text \<open>
  \<open>safetyScore\<close> keeps one local accumulator, \<open>let score = 0\<close>, and runs four blocks on
  it in sequence, each of which adds 0, 1 or 2. Each block is a function from the
  accumulator before it to the accumulator after it. The accumulator only ever holds a
  sum of the literals 0, 1 and 2, so it is an integer.
\<close>

text \<open>The block under \<open>// Temperature\<close>.\<close>

definition temperature :: "reading \<Rightarrow> int \<Rightarrow> int" where
  "temperature p score =
     (if activity p = Running then
        (if js_ge (tempC p) (Fin 7) \<and> js_le (tempC p) (Fin 18) then score + 0
         else if (js_gt (tempC p) (Fin 18) \<and> js_le (tempC p) (Fin 26))
               \<or> (js_ge (tempC p) (Fin (- 5)) \<and> js_lt (tempC p) (Fin 7)) then score + 1
         else score + 2)
      else
        (if js_ge (tempC p) (Fin 10) \<and> js_le (tempC p) (Fin 24) then score + 0
         else if (js_gt (tempC p) (Fin 24) \<and> js_le (tempC p) (Fin 30))
               \<or> (js_ge (tempC p) (Fin 0) \<and> js_lt (tempC p) (Fin 10)) then score + 1
         else score + 2))"

text \<open>The block under \<open>// Wind\<close>.\<close>

definition wind :: "reading \<Rightarrow> int \<Rightarrow> int" where
  "wind p score =
     (if activity p = Running then
        (if js_le (windKmh p) (Fin 25) then score + 0
         else if js_le (windKmh p) (Fin 39) then score + 1
         else score + 2)
      else
        (if js_le (windKmh p) (Fin 20) then score + 0
         else if js_le (windKmh p) (Fin 32) then score + 1
         else score + 2))"

text \<open>The block under \<open>// Precipitation\<close>; it has no final \<open>else\<close>.\<close>

definition precipitation :: "reading \<Rightarrow> int \<Rightarrow> int" where
  "precipitation p score =
     (if js_ge (precipMm p) (Fin 3) then score + 2
      else if js_ge (precipMm p) (Fin 1) \<or> js_ge (precipProb p) (Fin 50) then score + 1
      else score)"

text \<open>
  The block under \<open>// Air Quality\<close>, guarded by \<open>typeof aqiUS === "number"\<close>, which is
  false for \<open>null\<close> and for \<open>undefined\<close> and true for every number, NaN included.
\<close>

definition airQuality :: "reading \<Rightarrow> int \<Rightarrow> int" where
  "airQuality p score =
     (case aqiUS p of
        Num a \<Rightarrow>
          (if js_le a (Fin 50) then score + 0
           else if js_le a (Fin 100) then score + 1
           else score + 2)
      | _ \<Rightarrow> score)"

definition safetyScore :: "reading \<Rightarrow> int" where
  "safetyScore p =
     (let score = 0;
          score = temperature p score;
          score = wind p score;
          score = precipitation p score;
          score = airQuality p score
      in score)"

text \<open>
  \<open>scoreToLevel(score: number)\<close> takes any number; its callers pass the result of
  \<open>safetyScore\<close>. \<open>of_score\<close> is that passing of an integer score as a number.
\<close>

definition scoreToLevel :: "number \<Rightarrow> Level" where
  "scoreToLevel score =
     (if js_le score (Fin 2) then Green
      else if js_le score (Fin 4) then Yellow
      else Red)"

definition of_score :: "int \<Rightarrow> number" where
  "of_score s = Fin (of_int s)"

definition levelLabel :: "Level \<Rightarrow> string" where
  "levelLabel level =
     (if level = Green then ''Ideal for outdoors''
      else if level = Yellow then ''Caution advised''
      else ''Not recommended'')"

text \<open>
  The severity order of the advisory levels, best first: ideal (green), caution (yellow),
  not recommended (red).
\<close>

fun severity :: "Level \<Rightarrow> nat" where
  "severity Green = 0"
| "severity Yellow = 1"
| "severity Red = 2"

section \<open>The statements of the source, run step by step\<close>

text \<open>
  The functions above have no error value in their result types, because the source has
  no \<open>throw\<close>. To state that no step of the source can fail, the bodies of \<open>safetyScore\<close>
  and \<open>scoreToLevel\<close> are also written down as statements and run by an interpreter in
  which a step can fail. The values are those the bodies handle: \<open>undefined\<close>, \<open>null\<close>,
  numbers, strings and the booleans of the conditions.
\<close>

datatype val = VUndefined | VNull | VNum number | VStr string | VBool bool

text \<open>
  The ways a step fails. \<open>Unbound\<close>: an identifier that is not declared (a
  ReferenceError). \<open>Coerced\<close>: a relational operator or \<open>+=\<close> applied to a value that
  is not a number, or a condition that is not a boolean; JavaScript would convert the
  operand there, and that conversion is the only part of these operators that can throw.
  \<open>Inexact\<close>: an addition outside the integers of magnitude at most \<open>2^53\<close>, where the
  sum of two doubles may be rounded and the real sum would not describe it. A run without
  failure is therefore a run in which nothing is converted, nothing is rounded and nothing
  throws.
\<close>

datatype failure = Unbound string | Coerced | Inexact

datatype expr =
    Lit number
  | Str string
  | Var string
  | TypeOf expr
  | StrictEq expr expr
  | Lt expr expr
  | Le expr expr
  | Gt expr expr
  | Ge expr expr
  | And expr expr
  | Or expr expr

datatype stmt =
    Skip
  | LetVar string expr
  | AddAssign string expr
  | IfElse expr stmt stmt
  | Seq stmt stmt
  | Return expr

type_synonym env = "string \<rightharpoonup> val"

text \<open>\<open>typeof\<close>; \<open>typeof null\<close> is \<open>"object"\<close>.\<close>

fun typeof :: "val \<Rightarrow> string" where
  "typeof VUndefined = ''undefined''"
| "typeof VNull = ''object''"
| "typeof (VNum n) = ''number''"
| "typeof (VStr s) = ''string''"
| "typeof (VBool b) = ''boolean''"

text \<open>\<open>===\<close>: never converts; NaN is not equal to itself.\<close>

fun strict_eq :: "val \<Rightarrow> val \<Rightarrow> bool" where
  "strict_eq VUndefined VUndefined = True"
| "strict_eq VNull VNull = True"
| "strict_eq (VNum a) (VNum b) = (a \<noteq> NaN \<and> a = b)"
| "strict_eq (VStr s) (VStr t) = (s = t)"
| "strict_eq (VBool a) (VBool b) = (a = b)"
| "strict_eq _ _ = False"

fun relational :: "(number \<Rightarrow> number \<Rightarrow> bool) \<Rightarrow> failure + val \<Rightarrow> failure + val
    \<Rightarrow> failure + val" where
  "relational rel (Inl f) _ = Inl f"
| "relational rel (Inr _) (Inl f) = Inl f"
| "relational rel (Inr (VNum a)) (Inr (VNum b)) = Inr (VBool (rel a b))"
| "relational rel (Inr _) (Inr _) = Inl Coerced"

text \<open>
  Expressions are evaluated left to right; \<open>&&\<close> and \<open>||\<close> evaluate their right operand
  only when the left one does not decide.
\<close>

fun eval_expr :: "env \<Rightarrow> expr \<Rightarrow> failure + val" where
  "eval_expr e (Lit n) = Inr (VNum n)"
| "eval_expr e (Str s) = Inr (VStr s)"
| "eval_expr e (Var x) = (case e x of None \<Rightarrow> Inl (Unbound x) | Some v \<Rightarrow> Inr v)"
| "eval_expr e (TypeOf a) =
     (case eval_expr e a of Inl f \<Rightarrow> Inl f | Inr v \<Rightarrow> Inr (VStr (typeof v)))"
| "eval_expr e (StrictEq a b) =
     (case eval_expr e a of
        Inl f \<Rightarrow> Inl f
      | Inr v \<Rightarrow> (case eval_expr e b of Inl f \<Rightarrow> Inl f | Inr w \<Rightarrow> Inr (VBool (strict_eq v w))))"
| "eval_expr e (Lt a b) = relational js_lt (eval_expr e a) (eval_expr e b)"
| "eval_expr e (Le a b) = relational js_le (eval_expr e a) (eval_expr e b)"
| "eval_expr e (Gt a b) = relational js_gt (eval_expr e a) (eval_expr e b)"
| "eval_expr e (Ge a b) = relational js_ge (eval_expr e a) (eval_expr e b)"
| "eval_expr e (And a b) =
     (case eval_expr e a of
        Inl f \<Rightarrow> Inl f
      | Inr (VBool True) \<Rightarrow> eval_expr e b
      | Inr (VBool False) \<Rightarrow> Inr (VBool False)
      | Inr _ \<Rightarrow> Inl Coerced)"
| "eval_expr e (Or a b) =
     (case eval_expr e a of
        Inl f \<Rightarrow> Inl f
      | Inr (VBool True) \<Rightarrow> Inr (VBool True)
      | Inr (VBool False) \<Rightarrow> eval_expr e b
      | Inr _ \<Rightarrow> Inl Coerced)"

text \<open>Where the sum of two doubles is the sum of the reals.\<close>

definition exact_int :: "real \<Rightarrow> bool" where
  "exact_int x = (of_int \<lfloor>x\<rfloor> = x \<and> - 9007199254740992 \<le> x \<and> x \<le> 9007199254740992)"

fun add_assign :: "val \<Rightarrow> val \<Rightarrow> failure + val" where
  "add_assign (VNum (Fin x)) (VNum (Fin y)) =
     (if exact_int x \<and> exact_int y \<and> exact_int (x + y) then Inr (VNum (Fin (x + y)))
      else Inl Inexact)"
| "add_assign (VNum _) (VNum _) = Inl Inexact"
| "add_assign _ _ = Inl Coerced"

text \<open>
  A statement either ends normally, with the variables as it leaves them, or returns a
  value, which ends the function: the statements after a \<open>return\<close> are not run.
\<close>

datatype outcome = Normal env | Returned val

fun exec :: "stmt \<Rightarrow> env \<Rightarrow> failure + outcome" where
  "exec Skip e = Inr (Normal e)"
| "exec (LetVar x a) e =
     (case eval_expr e a of Inl f \<Rightarrow> Inl f | Inr v \<Rightarrow> Inr (Normal (e(x \<mapsto> v))))"
| "exec (AddAssign x a) e =
     (case e x of
        None \<Rightarrow> Inl (Unbound x)
      | Some v \<Rightarrow>
          (case eval_expr e a of
             Inl f \<Rightarrow> Inl f
           | Inr w \<Rightarrow>
               (case add_assign v w of Inl f \<Rightarrow> Inl f | Inr u \<Rightarrow> Inr (Normal (e(x \<mapsto> u))))))"
| "exec (IfElse c s t) e =
     (case eval_expr e c of
        Inl f \<Rightarrow> Inl f
      | Inr (VBool True) \<Rightarrow> exec s e
      | Inr (VBool False) \<Rightarrow> exec t e
      | Inr _ \<Rightarrow> Inl Coerced)"
| "exec (Seq s t) e =
     (case exec s e of
        Inl f \<Rightarrow> Inl f
      | Inr (Returned v) \<Rightarrow> Inr (Returned v)
      | Inr (Normal e') \<Rightarrow> exec t e')"
| "exec (Return a) e =
     (case eval_expr e a of Inl f \<Rightarrow> Inl f | Inr v \<Rightarrow> Inr (Returned v))"

text \<open>
  A call runs the body in the environment of the parameters; a body that ends without
  \<open>return\<close> gives \<open>undefined\<close>.
\<close>

definition call :: "stmt \<Rightarrow> env \<Rightarrow> failure + val" where
  "call body e =
     (case exec body e of
        Inl f \<Rightarrow> Inl f
      | Inr (Returned v) \<Rightarrow> Inr v
      | Inr (Normal _) \<Rightarrow> Inr VUndefined)"

text \<open>
  The first line of \<open>safetyScore\<close>,
  \<open>const { activity, tempC, windKmh, precipMm, precipProb, aqiUS } = p\<close>, binds six names
  to the fields of the argument; \<open>weatherCode\<close> is not among them. A field that is left
  out reads as \<open>undefined\<close>.
\<close>

fun activity_val :: "Activity \<Rightarrow> val" where
  "activity_val Running = VStr ''running''"
| "activity_val Cycling = VStr ''cycling''"

fun aqi_val :: "aqi \<Rightarrow> val" where
  "aqi_val Undefined = VUndefined"
| "aqi_val Null = VNull"
| "aqi_val (Num a) = VNum a"

definition destructure :: "reading \<Rightarrow> env" where
  "destructure p =
     [''activity'' \<mapsto> activity_val (activity p),
      ''tempC'' \<mapsto> VNum (tempC p),
      ''windKmh'' \<mapsto> VNum (windKmh p),
      ''precipMm'' \<mapsto> VNum (precipMm p),
      ''precipProb'' \<mapsto> VNum (precipProb p),
      ''aqiUS'' \<mapsto> aqi_val (aqiUS p)]"

text \<open>The four blocks of \<open>safetyScore\<close> as statements.\<close>

definition temperature_stmt :: stmt where
  "temperature_stmt =
     IfElse (StrictEq (Var ''activity'') (Str ''running''))
       (IfElse (And (Ge (Var ''tempC'') (Lit (Fin 7))) (Le (Var ''tempC'') (Lit (Fin 18))))
          (AddAssign ''score'' (Lit (Fin 0)))
          (IfElse (Or (And (Gt (Var ''tempC'') (Lit (Fin 18))) (Le (Var ''tempC'') (Lit (Fin 26))))
                  (And (Ge (Var ''tempC'') (Lit (Fin (- 5)))) (Lt (Var ''tempC'') (Lit (Fin 7)))))
             (AddAssign ''score'' (Lit (Fin 1)))
             (AddAssign ''score'' (Lit (Fin 2)))))
       (IfElse (And (Ge (Var ''tempC'') (Lit (Fin 10))) (Le (Var ''tempC'') (Lit (Fin 24))))
          (AddAssign ''score'' (Lit (Fin 0)))
          (IfElse (Or (And (Gt (Var ''tempC'') (Lit (Fin 24))) (Le (Var ''tempC'') (Lit (Fin 30))))
                  (And (Ge (Var ''tempC'') (Lit (Fin 0))) (Lt (Var ''tempC'') (Lit (Fin 10)))))
             (AddAssign ''score'' (Lit (Fin 1)))
             (AddAssign ''score'' (Lit (Fin 2)))))"

definition wind_stmt :: stmt where
  "wind_stmt =
     IfElse (StrictEq (Var ''activity'') (Str ''running''))
       (IfElse (Le (Var ''windKmh'') (Lit (Fin 25)))
          (AddAssign ''score'' (Lit (Fin 0)))
          (IfElse (Le (Var ''windKmh'') (Lit (Fin 39)))
             (AddAssign ''score'' (Lit (Fin 1)))
             (AddAssign ''score'' (Lit (Fin 2)))))
       (IfElse (Le (Var ''windKmh'') (Lit (Fin 20)))
          (AddAssign ''score'' (Lit (Fin 0)))
          (IfElse (Le (Var ''windKmh'') (Lit (Fin 32)))
             (AddAssign ''score'' (Lit (Fin 1)))
             (AddAssign ''score'' (Lit (Fin 2)))))"

definition precipitation_stmt :: stmt where
  "precipitation_stmt =
     IfElse (Ge (Var ''precipMm'') (Lit (Fin 3)))
       (AddAssign ''score'' (Lit (Fin 2)))
       (IfElse (Or (Ge (Var ''precipMm'') (Lit (Fin 1))) (Ge (Var ''precipProb'') (Lit (Fin 50))))
          (AddAssign ''score'' (Lit (Fin 1)))
          Skip)"

definition airQuality_stmt :: stmt where
  "airQuality_stmt =
     IfElse (StrictEq (TypeOf (Var ''aqiUS'')) (Str ''number''))
       (IfElse (Le (Var ''aqiUS'') (Lit (Fin 50)))
          (AddAssign ''score'' (Lit (Fin 0)))
          (IfElse (Le (Var ''aqiUS'') (Lit (Fin 100)))
             (AddAssign ''score'' (Lit (Fin 1)))
             (AddAssign ''score'' (Lit (Fin 2)))))
       Skip"

text \<open>The body of \<open>safetyScore\<close> after the destructuring.\<close>

definition safetyScore_body :: stmt where
  "safetyScore_body =
     Seq (LetVar ''score'' (Lit (Fin 0)))
    (Seq temperature_stmt
    (Seq wind_stmt
    (Seq precipitation_stmt
    (Seq airQuality_stmt
         (Return (Var ''score''))))))"

text \<open>The body of \<open>scoreToLevel\<close>, with its two early returns; its parameter is \<open>score\<close>.\<close>

definition scoreToLevel_body :: stmt where
  "scoreToLevel_body =
     Seq (IfElse (Le (Var ''score'') (Lit (Fin 2))) (Return (Str ''green'')) Skip)
    (Seq (IfElse (Le (Var ''score'') (Lit (Fin 4))) (Return (Str ''yellow'')) Skip)
         (Return (Str ''red'')))"

fun level_val :: "Level \<Rightarrow> val" where
  "level_val Green = VStr ''green''"
| "level_val Yellow = VStr ''yellow''"
| "level_val Red = VStr ''red''"

text \<open>
  The callers' \<open>const s = safetyScore({...}); ... scoreToLevel(s)\<close>: the value returned
  by the first call is the argument of the second.
\<close>

definition evaluate :: "reading \<Rightarrow> failure + val" where
  "evaluate p =
     (case call safetyScore_body (destructure p) of
        Inl f \<Rightarrow> Inl f
      | Inr s \<Rightarrow> call scoreToLevel_body [''score'' \<mapsto> s])"

section \<open>Comparisons with a finite number\<close>

lemma js_lt_NaN_right [simp]: "js_lt a NaN = False"
  by (cases a) simp_all

lemma js_le_Fin [simp]:
  "js_le (Fin x) (Fin y) = (x \<le> y)"
  "js_le NaN b = False" "js_le a NaN = False"
  "js_le NegInf (Fin y) = True" "js_le PosInf (Fin y) = False"
  by (auto simp: js_le_def)

lemma js_ge_Fin [simp]:
  "js_ge (Fin x) (Fin y) = (y \<le> x)"
  "js_ge NaN b = False" "js_ge a NaN = False"
  "js_ge NegInf (Fin y) = False" "js_ge PosInf (Fin y) = True"
  by (auto simp: js_ge_def)

lemma js_gt_Fin [simp]:
  "js_gt (Fin x) (Fin y) = (y < x)"
  "js_gt NaN b = False" "js_gt a NaN = False"
  "js_gt NegInf (Fin y) = False" "js_gt PosInf (Fin y) = True"
  by (auto simp: js_gt_def)

section \<open>The four blocks add to the accumulator\<close>

text \<open>
  What a block adds does not depend on the accumulator it starts from, so the result of
  \<open>safetyScore\<close> is the sum of what the four blocks add to 0.
\<close>

lemma temperature_adds: "temperature p s = s + temperature p 0"
  by (simp add: temperature_def)

lemma wind_adds: "wind p s = s + wind p 0"
  by (simp add: wind_def)

lemma precipitation_adds: "precipitation p s = s + precipitation p 0"
  by (simp add: precipitation_def)

lemma airQuality_adds: "airQuality p s = s + airQuality p 0"
  by (simp add: airQuality_def split: aqi.split)

lemma safetyScore_sum:
  "safetyScore p = temperature p 0 + wind p 0 + precipitation p 0 + airQuality p 0"
  unfolding safetyScore_def Let_def
  using airQuality_adds [of p "precipitation p (wind p (temperature p 0))"]
        precipitation_adds [of p "wind p (temperature p 0)"]
        wind_adds [of p "temperature p 0"]
  by simp

lemma temperature_range: "0 \<le> temperature p 0 \<and> temperature p 0 \<le> 2"
  by (simp add: temperature_def)

lemma wind_range: "0 \<le> wind p 0 \<and> wind p 0 \<le> 2"
  by (simp add: wind_def)

lemma precipitation_range: "0 \<le> precipitation p 0 \<and> precipitation p 0 \<le> 2"
  by (simp add: precipitation_def)

lemma airQuality_range: "0 \<le> airQuality p 0 \<and> airQuality p 0 \<le> 2"
  by (simp add: airQuality_def split: aqi.split)

section \<open>Temperature\<close>

text \<open>
  C1. For every reading, the temperature block adds to the score what the table of the
  activity says, with inclusive boundaries. Running: 0 when \<open>7 \<le> tempC \<le> 18\<close>, 1 when
  \<open>18 < tempC \<le> 26\<close> or \<open>-5 \<le> tempC < 7\<close>, 2 when \<open>tempC < -5\<close> or \<open>tempC > 26\<close>.
  Cycling: 0 when \<open>10 \<le> tempC \<le> 24\<close>, 1 when \<open>24 < tempC \<le> 30\<close> or \<open>0 \<le> tempC < 10\<close>,
  2 when \<open>tempC < 0\<close> or \<open>tempC > 30\<close>. The infinities lie below and above every
  threshold and add 2. In particular a running temperature of 18.0 adds 0 and 18.01 adds 1
  (the double nearest to 18.01 lies above 18, as the real 18.01 does).
  The block is the only place where \<open>safetyScore\<close> reads the temperature, and the score
  is the sum of what the four blocks add.
\<close>

theorem temperature_table:
  "(activity p = Running \<and> tempC p = Fin t \<and> 7 \<le> t \<and> t \<le> 18
      \<longrightarrow> temperature p s = s + 0) \<and>
   (activity p = Running \<and> tempC p = Fin t \<and> ((18 < t \<and> t \<le> 26) \<or> (- 5 \<le> t \<and> t < 7))
      \<longrightarrow> temperature p s = s + 1) \<and>
   (activity p = Running \<and> tempC p = Fin t \<and> (t < - 5 \<or> 26 < t)
      \<longrightarrow> temperature p s = s + 2) \<and>
   (activity p = Running \<and> (tempC p = NegInf \<or> tempC p = PosInf)
      \<longrightarrow> temperature p s = s + 2) \<and>
   (activity p = Cycling \<and> tempC p = Fin t \<and> 10 \<le> t \<and> t \<le> 24
      \<longrightarrow> temperature p s = s + 0) \<and>
   (activity p = Cycling \<and> tempC p = Fin t \<and> ((24 < t \<and> t \<le> 30) \<or> (0 \<le> t \<and> t < 10))
      \<longrightarrow> temperature p s = s + 1) \<and>
   (activity p = Cycling \<and> tempC p = Fin t \<and> (t < 0 \<or> 30 < t)
      \<longrightarrow> temperature p s = s + 2) \<and>
   (activity p = Cycling \<and> (tempC p = NegInf \<or> tempC p = PosInf)
      \<longrightarrow> temperature p s = s + 2) \<and>
   temperature (p\<lparr>activity := Running, tempC := Fin 18\<rparr>) s = s + 0 \<and>
   temperature (p\<lparr>activity := Running, tempC := Fin 18.01\<rparr>) s = s + 1 \<and>
   safetyScore p = temperature p 0 + wind p 0 + precipitation p 0 + airQuality p 0"
proof (intro conjI impI)
qed (use safetyScore_sum [of p] in \<open>auto simp: temperature_def\<close>)

theorem temperature_table_witness:
  "temperature \<lparr>activity = Running, tempC = Fin 7, windKmh = Fin 0, precipMm = Fin 0,
      precipProb = Fin 0, aqiUS = Undefined, weatherCode = None\<rparr> 0 = 0 \<and>
   temperature \<lparr>activity = Running, tempC = Fin 26, windKmh = Fin 0, precipMm = Fin 0,
      precipProb = Fin 0, aqiUS = Undefined, weatherCode = None\<rparr> 0 = 1 \<and>
   temperature \<lparr>activity = Running, tempC = Fin (- 5), windKmh = Fin 0, precipMm = Fin 0,
      precipProb = Fin 0, aqiUS = Undefined, weatherCode = None\<rparr> 0 = 1 \<and>
   temperature \<lparr>activity = Running, tempC = Fin (- 5.5), windKmh = Fin 0, precipMm = Fin 0,
      precipProb = Fin 0, aqiUS = Undefined, weatherCode = None\<rparr> 0 = 2 \<and>
   temperature \<lparr>activity = Running, tempC = PosInf, windKmh = Fin 0, precipMm = Fin 0,
      precipProb = Fin 0, aqiUS = Undefined, weatherCode = None\<rparr> 0 = 2 \<and>
   temperature \<lparr>activity = Cycling, tempC = Fin 24, windKmh = Fin 0, precipMm = Fin 0,
      precipProb = Fin 0, aqiUS = Undefined, weatherCode = None\<rparr> 0 = 0 \<and>
   temperature \<lparr>activity = Cycling, tempC = Fin 0, windKmh = Fin 0, precipMm = Fin 0,
      precipProb = Fin 0, aqiUS = Undefined, weatherCode = None\<rparr> 0 = 1 \<and>
   temperature \<lparr>activity = Cycling, tempC = Fin 30.5, windKmh = Fin 0, precipMm = Fin 0,
      precipProb = Fin 0, aqiUS = Undefined, weatherCode = None\<rparr> 0 = 2 \<and>
   temperature \<lparr>activity = Cycling, tempC = NegInf, windKmh = Fin 0, precipMm = Fin 0,
      precipProb = Fin 0, aqiUS = Undefined, weatherCode = None\<rparr> 0 = 2"
  using
    temperature_table [of "\<lparr>activity = Running, tempC = Fin 7, windKmh = Fin 0,
      precipMm = Fin 0, precipProb = Fin 0, aqiUS = Undefined, weatherCode = None\<rparr>" 7 0]
    temperature_table [of "\<lparr>activity = Running, tempC = Fin 26, windKmh = Fin 0,
      precipMm = Fin 0, precipProb = Fin 0, aqiUS = Undefined, weatherCode = None\<rparr>" 26 0]
    temperature_table [of "\<lparr>activity = Running, tempC = Fin (- 5), windKmh = Fin 0,
      precipMm = Fin 0, precipProb = Fin 0, aqiUS = Undefined, weatherCode = None\<rparr>" "- 5" 0]
    temperature_table [of "\<lparr>activity = Running, tempC = Fin (- 5.5), windKmh = Fin 0,
      precipMm = Fin 0, precipProb = Fin 0, aqiUS = Undefined, weatherCode = None\<rparr>" "- 5.5" 0]
    temperature_table [of "\<lparr>activity = Running, tempC = PosInf, windKmh = Fin 0,
      precipMm = Fin 0, precipProb = Fin 0, aqiUS = Undefined, weatherCode = None\<rparr>" 0 0]
    temperature_table [of "\<lparr>activity = Cycling, tempC = Fin 24, windKmh = Fin 0,
      precipMm = Fin 0, precipProb = Fin 0, aqiUS = Undefined, weatherCode = None\<rparr>" 24 0]
    temperature_table [of "\<lparr>activity = Cycling, tempC = Fin 0, windKmh = Fin 0,
      precipMm = Fin 0, precipProb = Fin 0, aqiUS = Undefined, weatherCode = None\<rparr>" 0 0]
    temperature_table [of "\<lparr>activity = Cycling, tempC = Fin 30.5, windKmh = Fin 0,
      precipMm = Fin 0, precipProb = Fin 0, aqiUS = Undefined, weatherCode = None\<rparr>" "30.5" 0]
    temperature_table [of "\<lparr>activity = Cycling, tempC = NegInf, windKmh = Fin 0,
      precipMm = Fin 0, precipProb = Fin 0, aqiUS = Undefined, weatherCode = None\<rparr>" 0 0]
  by simp

section \<open>Wind\<close>

text \<open>
  C2. For every reading, the wind block adds to the score what the table of the activity
  says, and a wind speed equal to a threshold gets the lower of the two values. Running:
  0 when \<open>windKmh \<le> 25\<close>, 1 when \<open>25 < windKmh \<le> 39\<close>, 2 when \<open>windKmh > 39\<close>. Cycling:
  0 when \<open>windKmh \<le> 20\<close>, 1 when \<open>20 < windKmh \<le> 32\<close>, 2 when \<open>windKmh > 32\<close>. Negative
  infinity lies below every threshold and positive infinity above.
\<close>

theorem wind_table:
  "(activity p = Running \<and> windKmh p = Fin w \<and> w \<le> 25 \<longrightarrow> wind p s = s + 0) \<and>
   (activity p = Running \<and> windKmh p = Fin w \<and> 25 < w \<and> w \<le> 39 \<longrightarrow> wind p s = s + 1) \<and>
   (activity p = Running \<and> windKmh p = Fin w \<and> 39 < w \<longrightarrow> wind p s = s + 2) \<and>
   (activity p = Running \<and> windKmh p = NegInf \<longrightarrow> wind p s = s + 0) \<and>
   (activity p = Running \<and> windKmh p = PosInf \<longrightarrow> wind p s = s + 2) \<and>
   (activity p = Cycling \<and> windKmh p = Fin w \<and> w \<le> 20 \<longrightarrow> wind p s = s + 0) \<and>
   (activity p = Cycling \<and> windKmh p = Fin w \<and> 20 < w \<and> w \<le> 32 \<longrightarrow> wind p s = s + 1) \<and>
   (activity p = Cycling \<and> windKmh p = Fin w \<and> 32 < w \<longrightarrow> wind p s = s + 2) \<and>
   (activity p = Cycling \<and> windKmh p = NegInf \<longrightarrow> wind p s = s + 0) \<and>
   (activity p = Cycling \<and> windKmh p = PosInf \<longrightarrow> wind p s = s + 2) \<and>
   wind (p\<lparr>activity := Running, windKmh := Fin 25\<rparr>) s = s + 0 \<and>
   wind (p\<lparr>activity := Running, windKmh := Fin 39\<rparr>) s = s + 1 \<and>
   wind (p\<lparr>activity := Cycling, windKmh := Fin 20\<rparr>) s = s + 0 \<and>
   wind (p\<lparr>activity := Cycling, windKmh := Fin 32\<rparr>) s = s + 1 \<and>
   safetyScore p = temperature p 0 + wind p 0 + precipitation p 0 + airQuality p 0"
proof (intro conjI impI)
qed (use safetyScore_sum [of p] in \<open>auto simp: wind_def\<close>)

theorem wind_table_witness:
  "wind \<lparr>activity = Running, tempC = Fin 12, windKmh = Fin 25, precipMm = Fin 0,
      precipProb = Fin 0, aqiUS = Undefined, weatherCode = None\<rparr> 0 = 0 \<and>
   wind \<lparr>activity = Running, tempC = Fin 12, windKmh = Fin 39, precipMm = Fin 0,
      precipProb = Fin 0, aqiUS = Undefined, weatherCode = None\<rparr> 0 = 1 \<and>
   wind \<lparr>activity = Running, tempC = Fin 12, windKmh = Fin 39.5, precipMm = Fin 0,
      precipProb = Fin 0, aqiUS = Undefined, weatherCode = None\<rparr> 0 = 2 \<and>
   wind \<lparr>activity = Running, tempC = Fin 12, windKmh = PosInf, precipMm = Fin 0,
      precipProb = Fin 0, aqiUS = Undefined, weatherCode = None\<rparr> 0 = 2 \<and>
   wind \<lparr>activity = Cycling, tempC = Fin 12, windKmh = Fin 20, precipMm = Fin 0,
      precipProb = Fin 0, aqiUS = Undefined, weatherCode = None\<rparr> 0 = 0 \<and>
   wind \<lparr>activity = Cycling, tempC = Fin 12, windKmh = Fin 32, precipMm = Fin 0,
      precipProb = Fin 0, aqiUS = Undefined, weatherCode = None\<rparr> 0 = 1 \<and>
   wind \<lparr>activity = Cycling, tempC = Fin 12, windKmh = Fin 32.5, precipMm = Fin 0,
      precipProb = Fin 0, aqiUS = Undefined, weatherCode = None\<rparr> 0 = 2 \<and>
   wind \<lparr>activity = Cycling, tempC = Fin 12, windKmh = NegInf, precipMm = Fin 0,
      precipProb = Fin 0, aqiUS = Undefined, weatherCode = None\<rparr> 0 = 0"
  using
    wind_table [of "\<lparr>activity = Running, tempC = Fin 12, windKmh = Fin 25,
      precipMm = Fin 0, precipProb = Fin 0, aqiUS = Undefined, weatherCode = None\<rparr>" 25 0]
    wind_table [of "\<lparr>activity = Running, tempC = Fin 12, windKmh = Fin 39,
      precipMm = Fin 0, precipProb = Fin 0, aqiUS = Undefined, weatherCode = None\<rparr>" 39 0]
    wind_table [of "\<lparr>activity = Running, tempC = Fin 12, windKmh = Fin 39.5,
      precipMm = Fin 0, precipProb = Fin 0, aqiUS = Undefined, weatherCode = None\<rparr>" "39.5" 0]
    wind_table [of "\<lparr>activity = Running, tempC = Fin 12, windKmh = PosInf,
      precipMm = Fin 0, precipProb = Fin 0, aqiUS = Undefined, weatherCode = None\<rparr>" 0 0]
    wind_table [of "\<lparr>activity = Cycling, tempC = Fin 12, windKmh = Fin 20,
      precipMm = Fin 0, precipProb = Fin 0, aqiUS = Undefined, weatherCode = None\<rparr>" 20 0]
    wind_table [of "\<lparr>activity = Cycling, tempC = Fin 12, windKmh = Fin 32,
      precipMm = Fin 0, precipProb = Fin 0, aqiUS = Undefined, weatherCode = None\<rparr>" 32 0]
    wind_table [of "\<lparr>activity = Cycling, tempC = Fin 12, windKmh = Fin 32.5,
      precipMm = Fin 0, precipProb = Fin 0, aqiUS = Undefined, weatherCode = None\<rparr>" "32.5" 0]
    wind_table [of "\<lparr>activity = Cycling, tempC = Fin 12, windKmh = NegInf,
      precipMm = Fin 0, precipProb = Fin 0, aqiUS = Undefined, weatherCode = None\<rparr>" 0 0]
  by simp

section \<open>Precipitation\<close>

text \<open>
  C3. For every reading, the precipitation block adds 2 when \<open>precipMm \<ge> 3\<close>, else 1 when
  \<open>precipMm \<ge> 1\<close> or \<open>precipProb \<ge> 50\<close>, else 0: for finite amounts and probabilities with
  the order of the reals, and for every reading with the comparisons of the source
  language. The block reads the amount and the probability only, so what it adds is the
  same for two readings that are equal except in the activity.
\<close>

theorem precipitation_rule:
  "(precipMm p = Fin m \<and> precipProb p = Fin q \<longrightarrow>
      precipitation p s = s + (if 3 \<le> m then 2 else if 1 \<le> m \<or> 50 \<le> q then 1 else 0)) \<and>
   precipitation p s =
      s + (if js_ge (precipMm p) (Fin 3) then 2
           else if js_ge (precipMm p) (Fin 1) \<or> js_ge (precipProb p) (Fin 50) then 1
           else 0) \<and>
   precipitation (p\<lparr>activity := a\<rparr>) s = precipitation p s \<and>
   (precipMm p = precipMm p' \<and> precipProb p = precipProb p' \<longrightarrow>
      precipitation p s = precipitation p' s) \<and>
   safetyScore p = temperature p 0 + wind p 0 + precipitation p 0 + airQuality p 0"
proof (intro conjI impI)
qed (use safetyScore_sum [of p] in \<open>auto simp: precipitation_def\<close>)

theorem precipitation_rule_witness:
  "precipitation \<lparr>activity = Running, tempC = Fin 12, windKmh = Fin 10, precipMm = Fin 3,
      precipProb = Fin 0, aqiUS = Undefined, weatherCode = None\<rparr> 0 = 2 \<and>
   precipitation \<lparr>activity = Running, tempC = Fin 12, windKmh = Fin 10, precipMm = Fin 1,
      precipProb = Fin 0, aqiUS = Undefined, weatherCode = None\<rparr> 0 = 1 \<and>
   precipitation \<lparr>activity = Running, tempC = Fin 12, windKmh = Fin 10, precipMm = Fin 0,
      precipProb = Fin 50, aqiUS = Undefined, weatherCode = None\<rparr> 0 = 1 \<and>
   precipitation \<lparr>activity = Running, tempC = Fin 12, windKmh = Fin 10, precipMm = Fin 0.9,
      precipProb = Fin 49, aqiUS = Undefined, weatherCode = None\<rparr> 0 = 0 \<and>
   precipitation \<lparr>activity = Cycling, tempC = Fin 12, windKmh = Fin 10, precipMm = Fin 0,
      precipProb = Fin 50, aqiUS = Undefined, weatherCode = None\<rparr> 0 =
   precipitation \<lparr>activity = Running, tempC = Fin 30, windKmh = Fin 45, precipMm = Fin 0,
      precipProb = Fin 50, aqiUS = Num (Fin 120), weatherCode = None\<rparr> 0"
  using
    precipitation_rule [of "\<lparr>activity = Running, tempC = Fin 12, windKmh = Fin 10,
      precipMm = Fin 3, precipProb = Fin 0, aqiUS = Undefined, weatherCode = None\<rparr>" 3 0 0]
    precipitation_rule [of "\<lparr>activity = Running, tempC = Fin 12, windKmh = Fin 10,
      precipMm = Fin 1, precipProb = Fin 0, aqiUS = Undefined, weatherCode = None\<rparr>" 1 0 0]
    precipitation_rule [of "\<lparr>activity = Running, tempC = Fin 12, windKmh = Fin 10,
      precipMm = Fin 0, precipProb = Fin 50, aqiUS = Undefined, weatherCode = None\<rparr>" 0 50 0]
    precipitation_rule [of "\<lparr>activity = Running, tempC = Fin 12, windKmh = Fin 10,
      precipMm = Fin 0.9, precipProb = Fin 49, aqiUS = Undefined, weatherCode = None\<rparr>"
      "0.9" 49 0]
    precipitation_rule [of "\<lparr>activity = Cycling, tempC = Fin 12, windKmh = Fin 10,
      precipMm = Fin 0, precipProb = Fin 50, aqiUS = Undefined, weatherCode = None\<rparr>" 0 50 0
      Running "\<lparr>activity = Running, tempC = Fin 30, windKmh = Fin 45,
      precipMm = Fin 0, precipProb = Fin 50, aqiUS = Num (Fin 120), weatherCode = None\<rparr>"]
  by simp

section \<open>Air quality\<close>

lemma temperature_aqi: "temperature (r\<lparr>aqiUS := a\<rparr>) s = temperature r s"
  by (simp add: temperature_def)

lemma wind_aqi: "wind (r\<lparr>aqiUS := a\<rparr>) s = wind r s"
  by (simp add: wind_def)

lemma precipitation_aqi: "precipitation (r\<lparr>aqiUS := a\<rparr>) s = precipitation r s"
  by (simp add: precipitation_def)

lemma safetyScore_chain:
  "safetyScore p = airQuality p (precipitation p (wind p (temperature p 0)))"
  by (simp only: safetyScore_def Let_def)

lemma safetyScore_aqi_split:
  "safetyScore (r\<lparr>aqiUS := a\<rparr>) =
     precipitation r (wind r (temperature r 0)) + airQuality (r\<lparr>aqiUS := a\<rparr>) 0"
proof -
  have "safetyScore (r\<lparr>aqiUS := a\<rparr>) =
      airQuality (r\<lparr>aqiUS := a\<rparr>) (precipitation r (wind r (temperature r 0)))"
    by (simp only: safetyScore_chain temperature_aqi wind_aqi precipitation_aqi)
  also have "\<dots> = precipitation r (wind r (temperature r 0)) + airQuality (r\<lparr>aqiUS := a\<rparr>) 0"
    by (rule airQuality_adds)
  finally show ?thesis .
qed

lemma airQuality_absent:
  "aqiUS r = Undefined \<or> aqiUS r = Null \<Longrightarrow> airQuality r s = s"
  by (auto simp: airQuality_def)

text \<open>
  C4. For every reading \<open>r\<close> and every AQI value, the score of \<open>r\<close> with that AQI is the
  score of \<open>r\<close> without an AQI plus 0 when the AQI is at most 50, plus 1 when it is above
  50 and at most 100, plus 2 when it is above 100 (the infinities lie below and above both
  thresholds). Without an AQI, that is with \<open>null\<close> or \<open>undefined\<close>, the air-quality block
  leaves the score as it is, the score is what the other three blocks give, and those
  three blocks do not read the AQI.
\<close>

theorem airQuality_contribution:
  "(x \<le> 50 \<longrightarrow>
      safetyScore (r\<lparr>aqiUS := Num (Fin x)\<rparr>) = safetyScore (r\<lparr>aqiUS := Undefined\<rparr>) + 0) \<and>
   (50 < x \<and> x \<le> 100 \<longrightarrow>
      safetyScore (r\<lparr>aqiUS := Num (Fin x)\<rparr>) = safetyScore (r\<lparr>aqiUS := Undefined\<rparr>) + 1) \<and>
   (100 < x \<longrightarrow>
      safetyScore (r\<lparr>aqiUS := Num (Fin x)\<rparr>) = safetyScore (r\<lparr>aqiUS := Undefined\<rparr>) + 2) \<and>
   safetyScore (r\<lparr>aqiUS := Num NegInf\<rparr>) = safetyScore (r\<lparr>aqiUS := Undefined\<rparr>) + 0 \<and>
   safetyScore (r\<lparr>aqiUS := Num PosInf\<rparr>) = safetyScore (r\<lparr>aqiUS := Undefined\<rparr>) + 2 \<and>
   safetyScore (r\<lparr>aqiUS := Null\<rparr>) = safetyScore (r\<lparr>aqiUS := Undefined\<rparr>) \<and>
   safetyScore (r\<lparr>aqiUS := Undefined\<rparr>) = precipitation r (wind r (temperature r 0)) \<and>
   (aqiUS r = Undefined \<or> aqiUS r = Null \<longrightarrow>
      airQuality r s = s \<and> safetyScore r = precipitation r (wind r (temperature r 0))) \<and>
   temperature (r\<lparr>aqiUS := a\<rparr>) s = temperature r s \<and>
   wind (r\<lparr>aqiUS := a\<rparr>) s = wind r s \<and>
   precipitation (r\<lparr>aqiUS := a\<rparr>) s = precipitation r s"
proof (intro conjI impI)
  assume absent: "aqiUS r = Undefined \<or> aqiUS r = Null"
  then show "airQuality r s = s"
    by (rule airQuality_absent)
  from absent show "safetyScore r = precipitation r (wind r (temperature r 0))"
    by (simp only: safetyScore_chain airQuality_absent)
next
  show "temperature (r\<lparr>aqiUS := a\<rparr>) s = temperature r s"
    by (rule temperature_aqi)
  show "wind (r\<lparr>aqiUS := a\<rparr>) s = wind r s"
    by (rule wind_aqi)
  show "precipitation (r\<lparr>aqiUS := a\<rparr>) s = precipitation r s"
    by (rule precipitation_aqi)
qed (simp_all add: safetyScore_aqi_split airQuality_def)

theorem airQuality_contribution_witness:
  "safetyScore \<lparr>activity = Running, tempC = Fin 30, windKmh = Fin 45, precipMm = Fin 0,
      precipProb = Fin 0, aqiUS = Num (Fin 50), weatherCode = None\<rparr> = 4 \<and>
   safetyScore \<lparr>activity = Running, tempC = Fin 30, windKmh = Fin 45, precipMm = Fin 0,
      precipProb = Fin 0, aqiUS = Num (Fin 100), weatherCode = None\<rparr> = 5 \<and>
   safetyScore \<lparr>activity = Running, tempC = Fin 30, windKmh = Fin 45, precipMm = Fin 0,
      precipProb = Fin 0, aqiUS = Num (Fin 100.5), weatherCode = None\<rparr> = 6 \<and>
   safetyScore \<lparr>activity = Running, tempC = Fin 30, windKmh = Fin 45, precipMm = Fin 0,
      precipProb = Fin 0, aqiUS = Null, weatherCode = None\<rparr> = 4 \<and>
   safetyScore \<lparr>activity = Running, tempC = Fin 30, windKmh = Fin 45, precipMm = Fin 0,
      precipProb = Fin 0, aqiUS = Undefined, weatherCode = None\<rparr> = 4 \<and>
   airQuality \<lparr>activity = Running, tempC = Fin 30, windKmh = Fin 45, precipMm = Fin 0,
      precipProb = Fin 0, aqiUS = Null, weatherCode = None\<rparr> 4 = 4"
proof -
  let ?r = "\<lparr>activity = Running, tempC = Fin 30, windKmh = Fin 45, precipMm = Fin 0,
      precipProb = Fin 0, aqiUS = Null, weatherCode = None\<rparr>"
  have t: "temperature ?r 0 = 2"
    by (simp add: temperature_def)
  have w: "wind ?r 2 = 4"
    by (simp add: wind_def)
  have base: "precipitation ?r (wind ?r (temperature ?r 0)) = 4"
    unfolding t w by (simp add: precipitation_def)
  show ?thesis
    using base airQuality_contribution [of 50 ?r 4 Undefined]
      airQuality_contribution [of 100 ?r 4 Undefined]
      airQuality_contribution [of "100.5" ?r 4 Undefined]
    by simp
qed

lemma airQuality_NaN: "airQuality (r\<lparr>aqiUS := Num NaN\<rparr>) s = s + 2"
  by (simp add: airQuality_def)

section \<open>From score to level\<close>

text \<open>
  C5. For every integer score \<open>s\<close>, \<open>scoreToLevel\<close> returns \<open>"green"\<close> exactly when
  \<open>s \<le> 2\<close>, \<open>"yellow"\<close> exactly when \<open>3 \<le> s \<le> 4\<close> and \<open>"red"\<close> exactly when \<open>s \<ge> 5\<close>;
  \<open>levelLabel\<close> names green ideal, yellow caution and red not recommended.
\<close>

theorem scoreToLevel_thresholds:
  "(scoreToLevel (of_score s) = Green \<longleftrightarrow> s \<le> 2) \<and>
   (scoreToLevel (of_score s) = Yellow \<longleftrightarrow> 3 \<le> s \<and> s \<le> 4) \<and>
   (scoreToLevel (of_score s) = Red \<longleftrightarrow> 5 \<le> s) \<and>
   levelLabel Green = ''Ideal for outdoors'' \<and>
   levelLabel Yellow = ''Caution advised'' \<and>
   levelLabel Red = ''Not recommended''"
  by (auto simp: scoreToLevel_def of_score_def levelLabel_def)

theorem scoreToLevel_thresholds_witness:
  "scoreToLevel (of_score 2) = Green \<and> scoreToLevel (of_score 3) = Yellow \<and>
   scoreToLevel (of_score 4) = Yellow \<and> scoreToLevel (of_score 5) = Red"
  using scoreToLevel_thresholds [of 2] scoreToLevel_thresholds [of 3]
    scoreToLevel_thresholds [of 4] scoreToLevel_thresholds [of 5]
  by simp

section \<open>Bounds of the score\<close>

text \<open>
  C6. For every reading, whatever the activity, the numbers and the AQI, \<open>safetyScore\<close>
  returns an integer between 0 and 8.
\<close>

theorem safetyScore_bounds: "0 \<le> safetyScore p \<and> safetyScore p \<le> 8"
  using safetyScore_sum [of p] temperature_range [of p] wind_range [of p]
    precipitation_range [of p] airQuality_range [of p]
  by linarith

section \<open>The five scenarios\<close>

text \<open>
  C7. The five scenarios of the specification evaluate to the scores and levels it gives,
  whatever the weather code, and, where the AQI is absent, for \<open>undefined\<close> and for
  \<open>null\<close>.
\<close>

theorem scenarios:
  "safetyScore \<lparr>activity = Running, tempC = Fin 12, windKmh = Fin 10, precipMm = Fin 0,
      precipProb = Fin 0, aqiUS = Num (Fin 30), weatherCode = c\<rparr> = 0 \<and>
   scoreToLevel (of_score 0) = Green \<and>
   safetyScore \<lparr>activity = Running, tempC = Fin 30, windKmh = Fin 45, precipMm = Fin 0,
      precipProb = Fin 0, aqiUS = Undefined, weatherCode = c\<rparr> = 4 \<and>
   safetyScore \<lparr>activity = Running, tempC = Fin 30, windKmh = Fin 45, precipMm = Fin 0,
      precipProb = Fin 0, aqiUS = Null, weatherCode = c\<rparr> = 4 \<and>
   safetyScore \<lparr>activity = Running, tempC = Fin 12, windKmh = Fin 10, precipMm = Fin 5,
      precipProb = Fin 90, aqiUS = Num (Fin 150), weatherCode = c\<rparr> = 4 \<and>
   safetyScore \<lparr>activity = Running, tempC = Fin (- 10), windKmh = Fin 50, precipMm = Fin 0,
      precipProb = Fin 0, aqiUS = Undefined, weatherCode = c\<rparr> = 4 \<and>
   safetyScore \<lparr>activity = Running, tempC = Fin (- 10), windKmh = Fin 50, precipMm = Fin 0,
      precipProb = Fin 0, aqiUS = Null, weatherCode = c\<rparr> = 4 \<and>
   scoreToLevel (of_score 4) = Yellow \<and>
   safetyScore \<lparr>activity = Cycling, tempC = Fin 35, windKmh = Fin 40, precipMm = Fin 4,
      precipProb = Fin 100, aqiUS = Num (Fin 120), weatherCode = c\<rparr> = 8 \<and>
   scoreToLevel (of_score 8) = Red \<and>
   levelLabel Green = ''Ideal for outdoors'' \<and>
   levelLabel Yellow = ''Caution advised'' \<and>
   levelLabel Red = ''Not recommended''"
  by (simp add: safetyScore_sum temperature_def wind_def precipitation_def airQuality_def
      scoreToLevel_def of_score_def levelLabel_def)

section \<open>Monotonicity of the level\<close>

text \<open>
  C8. \<open>scoreToLevel\<close> is monotonic: for integers \<open>s1 \<le> s2\<close> the level of \<open>s1\<close> is at
  most as severe as the level of \<open>s2\<close>, in the order green, yellow, red.
\<close>

theorem scoreToLevel_mono:
  "s1 \<le> s2 \<Longrightarrow>
   severity (scoreToLevel (of_score s1)) \<le> severity (scoreToLevel (of_score s2))"
  by (simp add: scoreToLevel_def of_score_def)

theorem scoreToLevel_mono_witness:
  "(2::int) \<le> 5 \<and> severity (scoreToLevel (of_score 2)) = 0 \<and>
   severity (scoreToLevel (of_score 5)) = 2 \<and>
   severity (scoreToLevel (of_score 2)) \<le> severity (scoreToLevel (of_score 5))"
proof -
  have h: "(2::int) \<le> 5" by simp
  from scoreToLevel_mono [OF h] h show ?thesis
    by (simp add: scoreToLevel_def of_score_def)
qed

section \<open>Determinism\<close>

lemma temperature_cong:
  "activity p = activity q \<Longrightarrow> tempC p = tempC q \<Longrightarrow> temperature p s = temperature q s"
  by (simp add: temperature_def)

lemma wind_cong:
  "activity p = activity q \<Longrightarrow> windKmh p = windKmh q \<Longrightarrow> wind p s = wind q s"
  by (simp add: wind_def)

lemma precipitation_cong:
  "precipMm p = precipMm q \<Longrightarrow> precipProb p = precipProb q \<Longrightarrow>
   precipitation p s = precipitation q s"
  by (simp add: precipitation_def)

lemma airQuality_cong:
  "aqiUS p = aqiUS q \<Longrightarrow> airQuality p s = airQuality q s"
  by (simp add: airQuality_def)

lemma safetyScore_cong:
  assumes "activity p = activity q" "tempC p = tempC q" "windKmh p = windKmh q"
    "precipMm p = precipMm q" "precipProb p = precipProb q" "aqiUS p = aqiUS q"
  shows "safetyScore p = safetyScore q"
proof -
  have "temperature p 0 = temperature q 0"
    using assms by (intro temperature_cong)
  moreover have "wind p 0 = wind q 0"
    using assms by (intro wind_cong)
  moreover have "precipitation p 0 = precipitation q 0"
    using assms by (intro precipitation_cong)
  moreover have "airQuality p 0 = airQuality q 0"
    using assms by (intro airQuality_cong)
  ultimately show ?thesis
    by (simp only: safetyScore_sum)
qed

text \<open>
  C9. The score and the level are a function of the fields \<open>activity\<close>, \<open>tempC\<close>,
  \<open>windKmh\<close>, \<open>precipMm\<close>, \<open>precipProb\<close> and \<open>aqiUS\<close> of the reading: two readings that
  agree on these six fields get the same score and the same level. In particular two
  identical readings do, and so do two readings that differ in \<open>weatherCode\<close> only, which
  \<open>safetyScore\<close> accepts and never reads.
\<close>

theorem safetyScore_deterministic:
  "(activity p = activity q \<and> tempC p = tempC q \<and> windKmh p = windKmh q \<and>
    precipMm p = precipMm q \<and> precipProb p = precipProb q \<and> aqiUS p = aqiUS q \<longrightarrow>
      safetyScore p = safetyScore q \<and>
      scoreToLevel (of_score (safetyScore p)) = scoreToLevel (of_score (safetyScore q))) \<and>
   (p = q \<longrightarrow>
      safetyScore p = safetyScore q \<and>
      scoreToLevel (of_score (safetyScore p)) = scoreToLevel (of_score (safetyScore q))) \<and>
   safetyScore (p\<lparr>weatherCode := c\<rparr>) = safetyScore p \<and>
   scoreToLevel (of_score (safetyScore (p\<lparr>weatherCode := c\<rparr>))) =
      scoreToLevel (of_score (safetyScore p))"
proof (intro conjI impI)
  assume "activity p = activity q \<and> tempC p = tempC q \<and> windKmh p = windKmh q \<and>
    precipMm p = precipMm q \<and> precipProb p = precipProb q \<and> aqiUS p = aqiUS q"
  then show eq: "safetyScore p = safetyScore q"
    by (intro safetyScore_cong) simp_all
  show "scoreToLevel (of_score (safetyScore p)) = scoreToLevel (of_score (safetyScore q))"
    by (simp only: eq)
next
  assume "p = q"
  then show "safetyScore p = safetyScore q"
    and "scoreToLevel (of_score (safetyScore p)) = scoreToLevel (of_score (safetyScore q))"
    by simp_all
next
  show upd: "safetyScore (p\<lparr>weatherCode := c\<rparr>) = safetyScore p"
    by (rule safetyScore_cong) simp_all
  show "scoreToLevel (of_score (safetyScore (p\<lparr>weatherCode := c\<rparr>))) =
      scoreToLevel (of_score (safetyScore p))"
    by (simp only: upd)
qed

theorem safetyScore_deterministic_witness:
  "safetyScore \<lparr>activity = Cycling, tempC = Fin 35, windKmh = Fin 40, precipMm = Fin 4,
      precipProb = Fin 100, aqiUS = Num (Fin 120), weatherCode = Some (Fin 95)\<rparr> =
   safetyScore \<lparr>activity = Cycling, tempC = Fin 35, windKmh = Fin 40, precipMm = Fin 4,
      precipProb = Fin 100, aqiUS = Num (Fin 120), weatherCode = None\<rparr> \<and>
   scoreToLevel (of_score (safetyScore \<lparr>activity = Cycling, tempC = Fin 35,
      windKmh = Fin 40, precipMm = Fin 4, precipProb = Fin 100, aqiUS = Num (Fin 120),
      weatherCode = Some (Fin 95)\<rparr>)) =
   scoreToLevel (of_score (safetyScore \<lparr>activity = Cycling, tempC = Fin 35,
      windKmh = Fin 40, precipMm = Fin 4, precipProb = Fin 100, aqiUS = Num (Fin 120),
      weatherCode = None\<rparr>))"
proof -
  let ?p = "\<lparr>activity = Cycling, tempC = Fin 35, windKmh = Fin 40, precipMm = Fin 4,
    precipProb = Fin 100, aqiUS = Num (Fin 120), weatherCode = Some (Fin 95)\<rparr>"
  let ?q = "\<lparr>activity = Cycling, tempC = Fin 35, windKmh = Fin 40, precipMm = Fin 4,
    precipProb = Fin 100, aqiUS = Num (Fin 120), weatherCode = None\<rparr>"
  have h: "activity ?p = activity ?q \<and> tempC ?p = tempC ?q \<and> windKmh ?p = windKmh ?q \<and>
    precipMm ?p = precipMm ?q \<and> precipProb ?p = precipProb ?q \<and> aqiUS ?p = aqiUS ?q"
    by simp
  from safetyScore_deterministic [of ?p ?q None] h show ?thesis
    by blast
qed

section \<open>Totality\<close>

lemma destructure_apply:
  "destructure p ''activity'' = Some (activity_val (activity p))"
  "destructure p ''tempC'' = Some (VNum (tempC p))"
  "destructure p ''windKmh'' = Some (VNum (windKmh p))"
  "destructure p ''precipMm'' = Some (VNum (precipMm p))"
  "destructure p ''precipProb'' = Some (VNum (precipProb p))"
  "destructure p ''aqiUS'' = Some (aqi_val (aqiUS p))"
  "destructure p ''score'' = None"
  "destructure p ''weatherCode'' = None"
  by (simp_all add: destructure_def)

lemma exec_add_literals:
  assumes "e ''score'' = Some (VNum (of_score s))" "0 \<le> s" "s \<le> 8"
  shows "exec (AddAssign ''score'' (Lit (Fin 0))) e =
      Inr (Normal (e(''score'' \<mapsto> VNum (of_score (s + 0)))))"
    and "exec (AddAssign ''score'' (Lit (Fin 1))) e =
      Inr (Normal (e(''score'' \<mapsto> VNum (of_score (s + 1)))))"
    and "exec (AddAssign ''score'' (Lit (Fin 2))) e =
      Inr (Normal (e(''score'' \<mapsto> VNum (of_score (s + 2)))))"
  using assms by (simp_all add: of_score_def exact_int_def)

lemma eval_compare:
  assumes "e x = Some (VNum a)"
  shows "eval_expr e (Lt (Var x) (Lit b)) = Inr (VBool (js_lt a b))"
    and "eval_expr e (Le (Var x) (Lit b)) = Inr (VBool (js_le a b))"
    and "eval_expr e (Gt (Var x) (Lit b)) = Inr (VBool (js_gt a b))"
    and "eval_expr e (Ge (Var x) (Lit b)) = Inr (VBool (js_ge a b))"
  using assms by simp_all

lemma eval_and:
  assumes "eval_expr e a = Inr (VBool x)" "eval_expr e b = Inr (VBool y)"
  shows "eval_expr e (And a b) = Inr (VBool (x \<and> y))"
  using assms by (cases x) simp_all

lemma eval_or:
  assumes "eval_expr e a = Inr (VBool x)" "eval_expr e b = Inr (VBool y)"
  shows "eval_expr e (Or a b) = Inr (VBool (x \<or> y))"
  using assms by (cases x) simp_all

lemma exec_if:
  assumes "eval_expr e c = Inr (VBool x)"
  shows "exec (IfElse c s t) e = (if x then exec s e else exec t e)"
  using assms by (cases x) simp_all

lemma eval_is_running:
  assumes "e ''activity'' = Some (activity_val (activity p))"
  shows "eval_expr e (StrictEq (Var ''activity'') (Str ''running'')) =
    Inr (VBool (activity p = Running))"
  using assms by (cases "activity p") simp_all

lemma exec_temperature:
  assumes act: "e ''activity'' = Some (activity_val (activity p))"
    and tmp: "e ''tempC'' = Some (VNum (tempC p))"
    and sc: "e ''score'' = Some (VNum (of_score s))" "0 \<le> s" "s \<le> 8"
  shows "exec temperature_stmt e =
    Inr (Normal (e(''score'' \<mapsto> VNum (of_score (temperature p s)))))"
proof -
  note cmp = eval_compare [of e "''tempC''" "tempC p", OF tmp]
  note run = eval_is_running [of e p, OF act]
  note add = exec_add_literals [of e s, OF sc]
  show ?thesis
    unfolding temperature_stmt_def temperature_def
    by (simp only: exec_if [OF run] exec_if [OF eval_and [OF cmp(4) cmp(2)]]
        exec_if [OF eval_or [OF eval_and [OF cmp(3) cmp(2)] eval_and [OF cmp(4) cmp(1)]]]
        add if_distrib [of "\<lambda>k. Inr (Normal (e(''score'' \<mapsto> VNum (of_score k))))"])
qed

lemma exec_wind:
  assumes act: "e ''activity'' = Some (activity_val (activity p))"
    and wnd: "e ''windKmh'' = Some (VNum (windKmh p))"
    and sc: "e ''score'' = Some (VNum (of_score s))" "0 \<le> s" "s \<le> 8"
  shows "exec wind_stmt e =
    Inr (Normal (e(''score'' \<mapsto> VNum (of_score (wind p s)))))"
proof -
  note cmp = eval_compare [of e "''windKmh''" "windKmh p", OF wnd]
  note run = eval_is_running [of e p, OF act]
  note add = exec_add_literals [of e s, OF sc]
  show ?thesis
    unfolding wind_stmt_def wind_def
    by (simp only: exec_if [OF run] exec_if [OF cmp(2)] add
        if_distrib [of "\<lambda>k. Inr (Normal (e(''score'' \<mapsto> VNum (of_score k))))"])
qed

lemma exec_precipitation:
  assumes amt: "e ''precipMm'' = Some (VNum (precipMm p))"
    and prb: "e ''precipProb'' = Some (VNum (precipProb p))"
    and sc: "e ''score'' = Some (VNum (of_score s))" "0 \<le> s" "s \<le> 8"
  shows "exec precipitation_stmt e =
    Inr (Normal (e(''score'' \<mapsto> VNum (of_score (precipitation p s)))))"
proof -
  note cmpa = eval_compare [of e "''precipMm''" "precipMm p", OF amt]
  note cmpp = eval_compare [of e "''precipProb''" "precipProb p", OF prb]
  note add = exec_add_literals [of e s, OF sc]
  have same: "e(''score'' \<mapsto> VNum (of_score s)) = e"
    using sc(1) by (rule map_upd_triv)
  show ?thesis
    unfolding precipitation_stmt_def precipitation_def
    by (simp only: exec_if [OF cmpa(4)] exec_if [OF eval_or [OF cmpa(4) cmpp(4)]] add
        exec.simps(1) same
        if_distrib [of "\<lambda>k. Inr (Normal (e(''score'' \<mapsto> VNum (of_score k))))"])
qed

lemma eval_is_number:
  assumes "e ''aqiUS'' = Some (aqi_val a)"
  shows "eval_expr e (StrictEq (TypeOf (Var ''aqiUS'')) (Str ''number'')) =
    Inr (VBool (case a of Num _ \<Rightarrow> True | _ \<Rightarrow> False))"
  using assms by (cases a) simp_all

lemma exec_airQuality:
  assumes aq: "e ''aqiUS'' = Some (aqi_val (aqiUS p))"
    and sc: "e ''score'' = Some (VNum (of_score s))" "0 \<le> s" "s \<le> 8"
  shows "exec airQuality_stmt e =
    Inr (Normal (e(''score'' \<mapsto> VNum (of_score (airQuality p s)))))"
proof (cases "aqiUS p")
  case (Num a)
  with aq have num: "e ''aqiUS'' = Some (VNum a)"
    by simp
  note cmp = eval_compare [of e "''aqiUS''" a, OF num]
  note add = exec_add_literals [of e s, OF sc]
  have "exec airQuality_stmt e =
      exec (IfElse (Le (Var ''aqiUS'') (Lit (Fin 50)))
        (AddAssign ''score'' (Lit (Fin 0)))
        (IfElse (Le (Var ''aqiUS'') (Lit (Fin 100)))
          (AddAssign ''score'' (Lit (Fin 1)))
          (AddAssign ''score'' (Lit (Fin 2))))) e"
    unfolding airQuality_stmt_def using num by simp
  also have "\<dots> = Inr (Normal (e(''score'' \<mapsto> VNum (of_score (airQuality p s)))))"
    unfolding airQuality_def Num aqi.case
    by (simp only: exec_if [OF cmp(2)] add
        if_distrib [of "\<lambda>k. Inr (Normal (e(''score'' \<mapsto> VNum (of_score k))))"])
  finally show ?thesis .
next
  case Undefined
  have same: "e(''score'' \<mapsto> VNum (of_score s)) = e"
    using sc(1) by (rule map_upd_triv)
  show ?thesis
    using aq by (simp add: airQuality_stmt_def airQuality_def Undefined same)
next
  case Null
  have same: "e(''score'' \<mapsto> VNum (of_score s)) = e"
    using sc(1) by (rule map_upd_triv)
  show ?thesis
    using aq by (simp add: airQuality_stmt_def airQuality_def Null same)
qed


lemma partial_sums:
  "0 \<le> temperature p 0" "temperature p 0 \<le> 8"
  "0 \<le> wind p (temperature p 0)" "wind p (temperature p 0) \<le> 8"
  "0 \<le> precipitation p (wind p (temperature p 0))"
  "precipitation p (wind p (temperature p 0)) \<le> 8"
  using temperature_range [of p] wind_range [of p] precipitation_range [of p]
    wind_adds [of p "temperature p 0"]
    precipitation_adds [of p "wind p (temperature p 0)"]
  by linarith+

lemma exec_safetyScore_body:
  "exec safetyScore_body (destructure p) = Inr (Returned (VNum (of_score (safetyScore p))))"
proof -
  let ?E = "\<lambda>s. (destructure p)(''score'' \<mapsto> VNum (of_score s))"
  have zero: "exec (LetVar ''score'' (Lit (Fin 0))) (destructure p) = Inr (Normal (?E 0))"
    by (simp add: of_score_def)
  have t: "exec temperature_stmt (?E 0) = Inr (Normal (?E (temperature p 0)))"
    using exec_temperature [of "?E 0" p 0] by (simp add: destructure_apply)
  have w: "exec wind_stmt (?E (temperature p 0)) =
      Inr (Normal (?E (wind p (temperature p 0))))"
    using exec_wind [of "?E (temperature p 0)" p "temperature p 0"] partial_sums [of p]
    by (simp add: destructure_apply)
  have r: "exec precipitation_stmt (?E (wind p (temperature p 0))) =
      Inr (Normal (?E (precipitation p (wind p (temperature p 0)))))"
    using exec_precipitation [of "?E (wind p (temperature p 0))" p "wind p (temperature p 0)"]
      partial_sums [of p]
    by (simp add: destructure_apply)
  have a: "exec airQuality_stmt (?E (precipitation p (wind p (temperature p 0)))) =
      Inr (Normal (?E (safetyScore p)))"
    using exec_airQuality [of "?E (precipitation p (wind p (temperature p 0)))" p
        "precipitation p (wind p (temperature p 0))"] partial_sums [of p]
    by (simp add: destructure_apply safetyScore_chain)
  have ret: "exec (Return (Var ''score'')) (?E (safetyScore p)) =
      Inr (Returned (VNum (of_score (safetyScore p))))"
    by simp
  show ?thesis
    unfolding safetyScore_body_def
    by (simp only: exec.simps(5) zero t w r a ret sum.case outcome.case)
qed

lemma exec_scoreToLevel_body:
  "exec scoreToLevel_body [''score'' \<mapsto> VNum n] = Inr (Returned (level_val (scoreToLevel n)))"
  by (simp add: scoreToLevel_body_def scoreToLevel_def)

text \<open>
  C10. Evaluation is total and has no error path. Run statement by statement, with every
  conversion, every rounding and every undeclared name counted as a failure, the body of
  \<open>safetyScore\<close> returns for every reading, whatever its numbers (negative, above 100,
  infinite or NaN), and what it returns is an integer from 0 to 8, the value of
  \<open>safetyScore\<close>; the body of \<open>scoreToLevel\<close> returns for every number one of the three
  strings \<open>"green"\<close>, \<open>"yellow"\<close> and \<open>"red"\<close>, the value of \<open>scoreToLevel\<close>; and so does
  the one call after the other. No run fails and none ends without \<open>return\<close>. Nothing is
  validated: an amount below 1, negative ones included, is scored as 0 mm, a probability
  of 100 or more as 100 and a probability below 50, negative ones included, as 0.
\<close>

theorem evaluation_total:
  "call safetyScore_body (destructure p) = Inr (VNum (of_score (safetyScore p))) \<and>
   0 \<le> safetyScore p \<and> safetyScore p \<le> 8 \<and>
   call scoreToLevel_body [''score'' \<mapsto> VNum n] = Inr (level_val (scoreToLevel n)) \<and>
   evaluate p = Inr (level_val (scoreToLevel (of_score (safetyScore p)))) \<and>
   (precipMm p = Fin m \<and> m < 1 \<longrightarrow>
      precipitation p s = precipitation (p\<lparr>precipMm := Fin 0\<rparr>) s) \<and>
   (precipProb p = Fin q \<and> 100 \<le> q \<longrightarrow>
      precipitation p s = precipitation (p\<lparr>precipProb := Fin 100\<rparr>) s) \<and>
   (precipProb p = Fin q \<and> q < 50 \<longrightarrow>
      precipitation p s = precipitation (p\<lparr>precipProb := Fin 0\<rparr>) s)"
proof (intro conjI impI)
  show run: "call safetyScore_body (destructure p) = Inr (VNum (of_score (safetyScore p)))"
    by (simp add: call_def exec_safetyScore_body)
  show "0 \<le> safetyScore p" "safetyScore p \<le> 8"
    using safetyScore_sum [of p] temperature_range [of p] wind_range [of p]
      precipitation_range [of p] airQuality_range [of p]
    by linarith+
  have level: "call scoreToLevel_body [''score'' \<mapsto> VNum x] = Inr (level_val (scoreToLevel x))"
    for x
    by (simp add: call_def exec_scoreToLevel_body)
  show "call scoreToLevel_body [''score'' \<mapsto> VNum n] = Inr (level_val (scoreToLevel n))"
    by (rule level)
  show "evaluate p = Inr (level_val (scoreToLevel (of_score (safetyScore p))))"
    by (simp only: evaluate_def run sum.case level)
qed (simp_all add: precipitation_def)

theorem evaluation_total_witness:
  "call safetyScore_body (destructure \<lparr>activity = Running, tempC = Fin 12,
      windKmh = Fin 10, precipMm = Fin (- 5), precipProb = Fin 250, aqiUS = Undefined,
      weatherCode = None\<rparr>) = Inr (VNum (Fin 1)) \<and>
   evaluate \<lparr>activity = Running, tempC = Fin 12, windKmh = Fin 10, precipMm = Fin (- 5),
      precipProb = Fin 250, aqiUS = Undefined, weatherCode = None\<rparr> = Inr (VStr ''green'') \<and>
   precipitation \<lparr>activity = Running, tempC = Fin 12, windKmh = Fin 10,
      precipMm = Fin (- 5), precipProb = Fin 250, aqiUS = Undefined, weatherCode = None\<rparr> 0 =
   precipitation \<lparr>activity = Running, tempC = Fin 12, windKmh = Fin 10,
      precipMm = Fin 0, precipProb = Fin 100, aqiUS = Undefined, weatherCode = None\<rparr> 0 \<and>
   call safetyScore_body (destructure \<lparr>activity = Cycling, tempC = NaN,
      windKmh = PosInf, precipMm = Fin 0.5, precipProb = Fin (- 20), aqiUS = Num NaN,
      weatherCode = None\<rparr>) = Inr (VNum (Fin 6)) \<and>
   evaluate \<lparr>activity = Cycling, tempC = NaN, windKmh = PosInf, precipMm = Fin 0.5,
      precipProb = Fin (- 20), aqiUS = Num NaN, weatherCode = None\<rparr> = Inr (VStr ''red'') \<and>
   call scoreToLevel_body [''score'' \<mapsto> VNum NaN] = Inr (VStr ''red'')"
proof -
  let ?r = "\<lparr>activity = Running, tempC = Fin 12, windKmh = Fin 10, precipMm = Fin (- 5),
      precipProb = Fin 250, aqiUS = Undefined, weatherCode = None\<rparr>"
  let ?u = "\<lparr>activity = Cycling, tempC = NaN, windKmh = PosInf, precipMm = Fin 0.5,
      precipProb = Fin (- 20), aqiUS = Num NaN, weatherCode = None\<rparr>"
  have r: "safetyScore ?r = 1"
    by (simp add: safetyScore_sum temperature_def wind_def precipitation_def airQuality_def)
  have u: "safetyScore ?u = 6"
    by (simp add: safetyScore_sum temperature_def wind_def precipitation_def airQuality_def)
  have p: "precipitation (?r\<lparr>precipMm := Fin 0\<rparr>) 0 =
      precipitation (?r\<lparr>precipMm := Fin 0, precipProb := Fin 100\<rparr>) 0"
    by (simp add: precipitation_def)
  from evaluation_total [of ?r NaN "- 5" 0 250] evaluation_total [of ?u NaN "0.5" 0 "- 20"]
    r u p
  show ?thesis
    by (simp add: of_score_def scoreToLevel_def)
qed

text \<open>
  The interpreter does fail where the source would convert or meet an undeclared name:
  without the destructuring, with a string for the temperature, and with \<open>undefined\<close>
  for the score.
\<close>

lemma failures_occur:
  "call safetyScore_body Map.empty = Inl (Unbound ''activity'')"
  "call safetyScore_body ((destructure p)(''tempC'' \<mapsto> VStr ''12'')) = Inl Coerced"
  "call scoreToLevel_body [''score'' \<mapsto> VUndefined] = Inl Coerced"
  "call (Seq (LetVar ''score'' (Lit (Fin 0.5))) (AddAssign ''score'' (Lit (Fin 1)))) Map.empty =
     Inl Inexact"
  by (cases "activity p";
      simp add: call_def safetyScore_body_def temperature_stmt_def scoreToLevel_body_def
        destructure_def exact_int_def)+

end
